theory Spec2Isabelle
  imports Main
begin

section \<open>Python values shared by both scripts\<close>

text \<open>
  Exceptions are values. \<open>SystemExit2\<close> is what \<^verbatim>\<open>parser.error(msg)\<close> raises
  (argparse prints the message and exits with status 2). \<open>EngineError\<close> stands for
  whatever an external engine raises (Spark, the JDBC driver, DuckDB, the ODBC driver);
  its text comes from the engine and is a parameter of the model.
\<close>

datatype py_error =
    ValueError string
  | FileNotFoundError string
  | KeyError string
  | InvalidRequestError string
  | SystemExit2 string
  | EngineError string

text \<open>
  Truth value of an optional string argument, as in \<^verbatim>\<open>if args.table\<close>:
  \<^verbatim>\<open>None\<close> and the empty string are false.
\<close>

definition truthy :: "string option \<Rightarrow> bool" where
  "truthy s = (case s of None \<Rightarrow> False | Some x \<Rightarrow> x \<noteq> [])"

text \<open>
  \<^verbatim>\<open>range(start, stop, step)\<close>: a zero step raises \<^verbatim>\<open>ValueError\<close>; otherwise the
  number of elements is the one CPython computes.
\<close>

definition range_len :: "int \<Rightarrow> int \<Rightarrow> int \<Rightarrow> nat" where
  "range_len lo hi step =
     (if 0 < step \<and> lo < hi then nat ((hi - lo - 1) div step + 1)
      else if step < 0 \<and> hi < lo then nat ((lo - hi - 1) div (- step) + 1)
      else 0)"

definition py_range :: "int \<Rightarrow> int \<Rightarrow> int \<Rightarrow> py_error + int list" where
  "py_range start stop step =
     (if step = 0 then Inl (ValueError ''range() arg 3 must not be zero'')
      else Inr (map (\<lambda>k. start + int k * step) [0 ..< range_len start stop step]))"

text \<open>
  A slice \<^verbatim>\<open>xs[i:j]\<close> (and \<^verbatim>\<open>df.iloc[i:j]\<close>): a negative index counts from the end,
  and both indices are clamped to the length.
\<close>

definition slice_index :: "int \<Rightarrow> nat \<Rightarrow> nat" where
  "slice_index i n = (if i < 0 then nat (max 0 (i + int n)) else min (nat i) n)"

definition iloc :: "'a list \<Rightarrow> int \<Rightarrow> int \<Rightarrow> 'a list" where
  "iloc xs i j =
     (let a = slice_index i (length xs); b = slice_index j (length xs)
      in take (b - a) (drop a xs))"

section \<open>restore\_data.py\<close>

subsection \<open>Data\<close>

text \<open>
  The SQLAlchemy column types the script constructs: \<^verbatim>\<open>Integer()\<close>, \<^verbatim>\<open>Float()\<close>,
  \<^verbatim>\<open>DATETIME2()\<close> and \<^verbatim>\<open>String(n)\<close>.
\<close>

datatype sql_type = Integer | Float | DATETIME2 | String nat

text \<open>
  The three pandas predicates \<^verbatim>\<open>pd.api.types.is_*_dtype\<close> belong to the library;
  they are parameters, over any type \<open>'d\<close> of dtypes.
\<close>

record 'd pandas_api =
  is_integer_dtype :: "'d \<Rightarrow> bool"
  is_float_dtype :: "'d \<Rightarrow> bool"
  is_datetime64_dtype :: "'d \<Rightarrow> bool"

text \<open>
  A DataFrame: \<^verbatim>\<open>df.dtypes.items()\<close> (column name and dtype, in column order) and the
  rows, over any type \<open>'r\<close> of rows.
\<close>

record ('d, 'r) dataframe =
  dtypes :: "(string \<times> 'd) list"
  rows :: "'r list"

text \<open>
  The destination: a table is found by its schema (\<open>None\<close> is the connection's
  default schema) and its name, and holds its column definitions and its rows.
\<close>

record 'r sql_table =
  columns :: "(string \<times> sql_type) list"
  table_rows :: "'r list"

type_synonym 'r database = "string option \<times> string \<Rightarrow> 'r sql_table option"

text \<open>
  What a run does to the outside, in order. \<open>ToSql\<close> records one call of
  \<^verbatim>\<open>DataFrame.to_sql\<close> with the rows it was given, whether or not it succeeds.
  \<open>LogError\<close> records \<^verbatim>\<open>logger.error\<close> with the exception whose text it prints.
  The \<^verbatim>\<open>logger.info\<close> lines have no effect on control flow and are left out.
\<close>

datatype 'r event =
    DuckConnect
  | DuckExecute string
  | DuckClose
  | CreateEngine
  | DropTable "string option" string
  | CreateTable "string option" string "(string \<times> sql_type) list"
  | ToSql "string option" string "'r list"
  | LogError py_error

fun is_ToSql :: "'r event \<Rightarrow> bool" where
  "is_ToSql (ToSql s n b) = True"
| "is_ToSql e = False"

record 'r world =
  db :: "'r database"
  trace :: "'r event list"

text \<open>
  The outcomes the script does not decide:
  \<^item> \<open>path_exists\<close> is \<^verbatim>\<open>os.path.exists\<close>;
  \<^item> \<open>duck_execute h q\<close> is what \<^verbatim>\<open>conn.execute(q)\<close> (followed by \<^verbatim>\<open>fetchdf()\<close>
    where the script calls it) gives on a connection that has already executed the
    statements \<open>h\<close>: an error text, or a frame;
  \<^item> \<open>to_sql_error k\<close> is the fate of the \<open>k\<close>-th call of \<^verbatim>\<open>to_sql\<close> of the run (counted
    from 0): \<open>None\<close> when it succeeds, \<open>Some (m, j)\<close> when it raises with the text \<open>m\<close>
    after \<open>j\<close> rows of its batch have reached the table. The script opens no
    transaction around a call, so what a failing call leaves behind is the driver's
    business: \<open>j = 0\<close> for one that rolls the call back;
  \<^item> \<open>mismatch_error\<close> is the driver's text for an \<^verbatim>\<open>INSERT\<close> that names a column the
    table does not have;
  \<^item> \<open>pandas_sql_type\<close> is the column type pandas itself picks when \<^verbatim>\<open>to_sql\<close> has to
    create the table.
  Opening the in-memory DuckDB connection, building the SQLAlchemy engine (which connects
  lazily) and the DDL statements are taken to succeed.
\<close>

record ('d, 'r) env =
  pd :: "'d pandas_api"
  path_exists :: "string \<Rightarrow> bool"
  duck_execute :: "string list \<Rightarrow> string \<Rightarrow> string + ('d, 'r) dataframe"
  to_sql_error :: "nat \<Rightarrow> (string \<times> nat) option"
  mismatch_error :: string
  pandas_sql_type :: "'d \<Rightarrow> sql_type"

definition emit :: "'r event \<Rightarrow> 'r world \<Rightarrow> 'r world" where
  "emit e w = w\<lparr>trace := trace w @ [e]\<rparr>"

subsection \<open>Loading the archive\<close>

definition sq :: string where
  "sq = [CHR 0x27]"

definition load_parquet_to_pandas ::
  "('d, 'r) env \<Rightarrow> string \<Rightarrow> 'r world \<Rightarrow> (py_error + ('d, 'r) dataframe) \<times> 'r world" where
  "load_parquet_to_pandas env parquet_path w =
     (if \<not> path_exists env parquet_path
      then (Inl (FileNotFoundError (''Parquet path not found: '' @ parquet_path)), w)
      else
        let w1 = emit DuckConnect w;
            query = ''SELECT * FROM read_parquet('' @ sq @ parquet_path @ sq @ '')'';
            w2 = emit (DuckExecute query) w1;
            w3 = emit DuckClose w2
        in (case duck_execute env [] query of
              Inl m \<Rightarrow> (Inl (EngineError m), w3)
            | Inr df \<Rightarrow> (Inr df, w3)))"

subsection \<open>Schema mapping\<close>

definition get_sql_data_type :: "'d pandas_api \<Rightarrow> 'd \<Rightarrow> string \<Rightarrow> sql_type" where
  "get_sql_data_type p pandas_dtype column_name =
     (if is_integer_dtype p pandas_dtype then Integer
      else if is_float_dtype p pandas_dtype then Float
      else if is_datetime64_dtype p pandas_dtype then DATETIME2
      else String 255)"

subsection \<open>Reconciling the destination table\<close>

text \<open>
  SQLAlchemy files a table in \<^verbatim>\<open>MetaData.tables\<close> under its key: the bare name when the
  table has no schema, \<^verbatim>\<open>schema.name\<close> otherwise.
\<close>

definition get_table_key :: "string \<Rightarrow> string option \<Rightarrow> string" where
  "get_table_key name schema = (case schema of None \<Rightarrow> name | Some s \<Rightarrow> s @ ''.'' @ name)"

text \<open>
  \<^verbatim>\<open>metadata.reflect(bind=engine, only=[table_name], schema=schema)\<close> on a fresh
  \<^verbatim>\<open>MetaData()\<close>: the one table, under its key; a name that the schema does not have is
  an \<^verbatim>\<open>InvalidRequestError\<close>. The dictionary maps a key to the table it denotes.
\<close>

definition reflect ::
  "'r database \<Rightarrow> string \<Rightarrow> string option \<Rightarrow> py_error + (string \<Rightarrow> (string option \<times> string) option)" where
  "reflect d table_name schema =
     (case d (schema, table_name) of
        None \<Rightarrow> Inl (InvalidRequestError table_name)
      | Some t \<Rightarrow> Inr [get_table_key table_name schema \<mapsto> (schema, table_name)])"

text \<open>\<^verbatim>\<open>Table.drop(engine)\<close>.\<close>

definition drop_table :: "string option \<times> string \<Rightarrow> 'r world \<Rightarrow> 'r world" where
  "drop_table ref w =
     emit (DropTable (fst ref) (snd ref)) (w\<lparr>db := (db w)(ref := None)\<rparr>)"

text \<open>
  \<^verbatim>\<open>metadata.create_all(engine)\<close> for the one table of the metadata. Its default
  \<^verbatim>\<open>checkfirst=True\<close> skips a table the database already has.
\<close>

definition create_all ::
  "string option \<Rightarrow> string \<Rightarrow> (string \<times> sql_type) list \<Rightarrow> 'r world \<Rightarrow> 'r world" where
  "create_all schema table_name cols w =
     (case db w (schema, table_name) of
        Some t \<Rightarrow> w
      | None \<Rightarrow>
          emit (CreateTable schema table_name cols)
            (w\<lparr>db := (db w)((schema, table_name) \<mapsto> \<lparr>columns = cols, table_rows = []\<rparr>)\<rparr>))"

text \<open>
  Lines 80 to 89: the branch on an existing table. The result is the value of
  \<^verbatim>\<open>table_exists\<close> after the block.
\<close>

definition handle_existing ::
  "string \<Rightarrow> string option \<Rightarrow> string \<Rightarrow> 'r world \<Rightarrow> (py_error + bool) \<times> 'r world" where
  "handle_existing table_name schema if_exists w =
     (if if_exists = ''fail''
      then (Inl (ValueError (''Table '' @ table_name @ '' already exists'')), w)
      else if if_exists = ''replace''
      then (case reflect (db w) table_name schema of
              Inl e \<Rightarrow> (Inl e, w)
            | Inr tables \<Rightarrow>
                if tables table_name \<noteq> None
                then (let key = (case schema of
                                   None \<Rightarrow> table_name
                                 | Some s \<Rightarrow> if s \<noteq> [] then s @ ''.'' @ table_name else table_name)
                      in case tables key of
                           None \<Rightarrow> (Inl (KeyError key), w)
                         | Some ref \<Rightarrow> (Inr False, drop_table ref w))
                else (Inr False, w))
      else (Inr True, w))"

definition create_table_if_not_exists ::
  "('d, 'r) env \<Rightarrow> ('d, 'r) dataframe \<Rightarrow> string \<Rightarrow> string option \<Rightarrow> string \<Rightarrow> 'r world
     \<Rightarrow> (py_error + unit) \<times> 'r world" where
  "create_table_if_not_exists env df table_name schema if_exists w =
     (case (if db w (schema, table_name) \<noteq> None
            then handle_existing table_name schema if_exists w
            else (Inr False, w)) of
        (Inl e, w1) \<Rightarrow> (Inl e, w1)
      | (Inr table_exists, w1) \<Rightarrow>
          if \<not> table_exists \<or> if_exists = ''replace''
          then (Inr (),
                create_all schema table_name
                  (map (\<lambda>(column_name, dtype). (column_name, get_sql_data_type (pd env) dtype column_name))
                     (dtypes df)) w1)
          else (Inr (), w1))"

subsection \<open>Batched insertion\<close>

text \<open>
  \<^verbatim>\<open>batch_df.to_sql(name=..., con=engine, if_exists='append', index=False,
  chunksize=batch_size)\<close> issues an \<^verbatim>\<open>INSERT\<close> that names the columns of the frame.
  \<^item> When the database does not have the table, pandas creates it first, with its own
    column types.
  \<^item> When the table lacks one of the frame's columns, the call raises and writes nothing.
  \<^item> Otherwise the call appends the rows of the batch, or raises after having written
    the first \<open>j\<close> of them.
\<close>

definition columns_fit :: "(string \<times> 'd) list \<Rightarrow> 'r sql_table \<Rightarrow> bool" where
  "columns_fit dts t = list_all (\<lambda>c. c \<in> set (map fst (columns t))) (map fst dts)"

definition insert_fits :: "(string \<times> 'd) list \<Rightarrow> 'r database \<Rightarrow> string option \<times> string \<Rightarrow> bool" where
  "insert_fits dts d key = (case d key of None \<Rightarrow> True | Some t \<Rightarrow> columns_fit dts t)"

definition append_rows ::
  "('d, 'r) env \<Rightarrow> (string \<times> 'd) list \<Rightarrow> string option \<times> string \<Rightarrow> 'r list \<Rightarrow> 'r database
     \<Rightarrow> 'r database" where
  "append_rows env dts key rs d =
     d(key \<mapsto>
         (case d key of
            None \<Rightarrow> \<lparr>columns = map (\<lambda>(c, dt). (c, pandas_sql_type env dt)) dts, table_rows = rs\<rparr>
          | Some t \<Rightarrow> t\<lparr>table_rows := table_rows t @ rs\<rparr>))"

definition to_sql ::
  "('d, 'r) env \<Rightarrow> (string \<times> 'd) list \<Rightarrow> string option \<Rightarrow> string \<Rightarrow> 'r list \<Rightarrow> 'r world
     \<Rightarrow> (py_error + unit) \<times> 'r world" where
  "to_sql env dts schema name batch w =
     (let k = length (filter is_ToSql (trace w));
          w1 = emit (ToSql schema name batch) w
      in if \<not> insert_fits dts (db w1) (schema, name)
         then (Inl (EngineError (mismatch_error env)), w1)
         else case to_sql_error env k of
                None \<Rightarrow>
                  (Inr (), w1\<lparr>db := append_rows env dts (schema, name) batch (db w1)\<rparr>)
              | Some (m, j) \<Rightarrow>
                  (Inl (EngineError m),
                   w1\<lparr>db := append_rows env dts (schema, name) (take j batch) (db w1)\<rparr>))"

text \<open>
  The body of the loop over \<^verbatim>\<open>range(0, total_rows, batch_size)\<close>, run over the list of
  start offsets; the first exception ends it.
\<close>

fun insert_batches ::
  "('d, 'r) env \<Rightarrow> ('d, 'r) dataframe \<Rightarrow> string \<Rightarrow> string option \<Rightarrow> int \<Rightarrow> int list \<Rightarrow> 'r world
     \<Rightarrow> (py_error + unit) \<times> 'r world" where
  "insert_batches env df table_name schema batch_size [] w = (Inr (), w)"
| "insert_batches env df table_name schema batch_size (i # is) w =
     (let total_rows = int (length (rows df));
          batch_end = min (i + batch_size) total_rows;
          batch_df = iloc (rows df) i batch_end
      in case to_sql env (dtypes df) (if truthy schema then schema else None) table_name batch_df w of
           (Inl e, w1) \<Rightarrow> (Inl e, w1)
         | (Inr u, w1) \<Rightarrow> insert_batches env df table_name schema batch_size is w1)"

definition insert_data_to_sql ::
  "('d, 'r) env \<Rightarrow> ('d, 'r) dataframe \<Rightarrow> string \<Rightarrow> string option \<Rightarrow> int \<Rightarrow> string \<Rightarrow> 'r world
     \<Rightarrow> (py_error + unit) \<times> 'r world" where
  "insert_data_to_sql env df table_name schema batch_size if_exists w =
     (case create_table_if_not_exists env df table_name schema if_exists w of
        (Inl e, w1) \<Rightarrow> (Inl e, w1)
      | (Inr u, w1) \<Rightarrow>
          (let total_rows = int (length (rows df))
           in case py_range 0 total_rows batch_size of
                Inl e \<Rightarrow> (Inl e, w1)
              | Inr offsets \<Rightarrow> insert_batches env df table_name schema batch_size offsets w1))"

subsection \<open>The command\<close>

text \<open>
  The command line as argparse sees it. A required argument that is absent is \<open>None\<close>;
  an argument with a default holds the default when absent. \<open>r_batch_size\<close> is the value
  after \<^verbatim>\<open>type=int\<close>.
\<close>

record restore_args =
  r_parquet_path :: "string option"
  r_server :: "string option"
  r_database :: "string option"
  r_username :: "string option"
  r_password :: "string option"
  r_driver :: string
  r_table_name :: "string option"
  r_schema :: "string option"
  r_if_exists :: string
  r_batch_size :: int
  r_transform_query :: "string option"

text \<open>
  \<^verbatim>\<open>parser.parse_args()\<close>: a value outside \<^verbatim>\<open>choices\<close> and a missing required argument
  end the process through \<^verbatim>\<open>parser.error\<close> (the message is abbreviated here). The
  result is the pair of required values the rest of \<^verbatim>\<open>main\<close> reads.
\<close>

definition restore_parse_args :: "restore_args \<Rightarrow> py_error + string \<times> string" where
  "restore_parse_args args =
     (if r_if_exists args \<notin> set [''fail'', ''replace'', ''append'']
      then Inl (SystemExit2 ''argument --if-exists: invalid choice'')
      else case (r_parquet_path args, r_server args, r_database args, r_username args,
                 r_password args, r_table_name args) of
             (Some parquet_path, Some sv, Some dbn, Some un, Some pw, Some table_name) \<Rightarrow>
               Inr (parquet_path, table_name)
           | _ \<Rightarrow> Inl (SystemExit2 ''the following arguments are required''))"

text \<open>Lines 176 to 185: the archive is loaded through the view, or directly.\<close>

definition restore_load ::
  "('d, 'r) env \<Rightarrow> string option \<Rightarrow> string \<Rightarrow> 'r world
     \<Rightarrow> (py_error + ('d, 'r) dataframe) \<times> 'r world" where
  "restore_load env transform_query parquet_path w =
     (if truthy transform_query
      then
        let q = (case transform_query of None \<Rightarrow> [] | Some t \<Rightarrow> t);
            w1 = emit DuckConnect w;
            view = ''CREATE VIEW parquet_view AS SELECT * FROM read_parquet(''
                     @ sq @ parquet_path @ sq @ '')'';
            w2 = emit (DuckExecute view) w1
        in (case duck_execute env [] view of
              Inl m \<Rightarrow> (Inl (EngineError m), w2)
            | Inr v \<Rightarrow>
                (let w3 = emit (DuckExecute q) w2
                 in case duck_execute env [view] q of
                      Inl m \<Rightarrow> (Inl (EngineError m), w3)
                    | Inr df \<Rightarrow> (Inr df, emit DuckClose w3)))
      else load_parquet_to_pandas env parquet_path w)"

text \<open>The body of the \<^verbatim>\<open>try\<close> block of \<^verbatim>\<open>main\<close>.\<close>

definition restore_try ::
  "('d, 'r) env \<Rightarrow> restore_args \<Rightarrow> string \<Rightarrow> string \<Rightarrow> 'r world \<Rightarrow> (py_error + unit) \<times> 'r world" where
  "restore_try env args parquet_path table_name w =
     (case restore_load env (r_transform_query args) parquet_path w of
        (Inl e, w1) \<Rightarrow> (Inl e, w1)
      | (Inr df, w1) \<Rightarrow>
          insert_data_to_sql env df table_name (r_schema args) (r_batch_size args)
            (r_if_exists args) (emit CreateEngine w1))"

text \<open>\<^verbatim>\<open>main\<close>: the handler logs the exception and raises it again.\<close>

definition restore_main ::
  "('d, 'r) env \<Rightarrow> restore_args \<Rightarrow> 'r world \<Rightarrow> (py_error + unit) \<times> 'r world" where
  "restore_main env args w =
     (case restore_parse_args args of
        Inl e \<Rightarrow> (Inl e, w)
      | Inr (parquet_path, table_name) \<Rightarrow>
          (case restore_try env args parquet_path table_name w of
             (Inl e, w1) \<Rightarrow> (Inl e, emit (LogError e) w1)
           | (Inr u, w1) \<Rightarrow> (Inr u, w1)))"

section \<open>extract\_data.py\<close>

subsection \<open>Data\<close>

text \<open>
  What an extraction run does to the outside, in order; the \<^verbatim>\<open>logger.info\<close> lines are
  left out. \<open>SparkReadJdbc\<close> carries the URL and the \<^verbatim>\<open>table\<close> argument of
  \<^verbatim>\<open>spark.read.jdbc\<close>; \<open>SparkWriteParquet\<close> the compression option, the columns given to
  \<^verbatim>\<open>partitionBy\<close> (\<open>None\<close> when it is not called) and the path.
\<close>

datatype extract_event =
    SparkGetOrCreate string
  | SparkReadJdbc string "string option"
  | SparkCount
  | LogWarning string
  | SparkWriteParquet string "string list option" string
  | SparkStop
  | LogErrorExtract py_error

text \<open>
  The outcomes Spark decides, over any type \<open>'f\<close> of Spark frames: whether the session
  starts, what the JDBC read gives (for a URL, a table argument, a user and a password),
  whether counting works, the frame with a literal column added, and whether the write
  works. \<open>now_string\<close> is the formatted \<^verbatim>\<open>datetime.now()\<close>.
\<close>

record 'f spark_env =
  session_error :: "string \<Rightarrow> string option"
  read_jdbc :: "string \<Rightarrow> string option \<Rightarrow> string option \<Rightarrow> string option \<Rightarrow> string + 'f"
  count_rows :: "'f \<Rightarrow> string + nat"
  now_string :: string
  with_column :: "'f \<Rightarrow> string \<Rightarrow> string \<Rightarrow> 'f"
  write_parquet :: "'f \<Rightarrow> string \<Rightarrow> string list option \<Rightarrow> string \<Rightarrow> string option"

text \<open>An optional string inside an f-string: \<^verbatim>\<open>None\<close> prints as \<^verbatim>\<open>None\<close>.\<close>

definition py_str :: "string option \<Rightarrow> string" where
  "py_str s = (case s of None \<Rightarrow> ''None'' | Some x \<Rightarrow> x)"

text \<open>
  \<^verbatim>\<open>str.lower\<close> and \<^verbatim>\<open>str.upper\<close> on ASCII text. The codes of \<^verbatim>\<open>A\<close> to \<^verbatim>\<open>Z\<close> are
  65 to 90 and those of \<^verbatim>\<open>a\<close> to \<^verbatim>\<open>z\<close> are 97 to 122: the two cases of a letter differ
  by 32, the sixth bit of the code, which is the sixth argument of \<open>Char\<close>.
\<close>

definition lower_char :: "char \<Rightarrow> char" where
  "lower_char c =
     (if 65 \<le> (of_char c :: nat) \<and> (of_char c :: nat) \<le> 90
      then (case c of Char b0 b1 b2 b3 b4 b5 b6 b7 \<Rightarrow> Char b0 b1 b2 b3 b4 True b6 b7)
      else c)"

definition upper_char :: "char \<Rightarrow> char" where
  "upper_char c =
     (if 97 \<le> (of_char c :: nat) \<and> (of_char c :: nat) \<le> 122
      then (case c of Char b0 b1 b2 b3 b4 b5 b6 b7 \<Rightarrow> Char b0 b1 b2 b3 b4 False b6 b7)
      else c)"

definition lower :: "string \<Rightarrow> string" where
  "lower s = map lower_char s"

definition upper :: "string \<Rightarrow> string" where
  "upper s = map upper_char s"

subsection \<open>Reading the source\<close>

definition extract_from_sql_server ::
  "'f spark_env \<Rightarrow> string option \<Rightarrow> string option \<Rightarrow> string option \<Rightarrow> string option
     \<Rightarrow> string option \<Rightarrow> string option \<Rightarrow> extract_event list
     \<Rightarrow> (py_error + 'f) \<times> extract_event list" where
  "extract_from_sql_server env server database table username password query tr =
     (let jdbc_url = ''jdbc:sqlserver://'' @ py_str server @ '';databaseName='' @ py_str database
                       @ '';trustServerCertificate=true'';
          table_arg = (if truthy query
                       then Some (''('' @ py_str query @ '') AS custom_query'')
                       else table);
          tr1 = tr @ [SparkReadJdbc jdbc_url table_arg]
      in case read_jdbc env jdbc_url table_arg username password of
           Inl m \<Rightarrow> (Inl (EngineError m), tr1)
         | Inr df \<Rightarrow>
             (case count_rows env df of
                Inl m \<Rightarrow> (Inl (EngineError m), tr1 @ [SparkCount])
              | Inr row_count \<Rightarrow> (Inr df, tr1 @ [SparkCount])))"

subsection \<open>Writing the archive\<close>

definition valid_methods :: "string list" where
  "valid_methods = [''snappy'', ''gzip'', ''lzo'', ''zstd'', ''none'']"

text \<open>
  \<^verbatim>\<open>if partition_columns\<close>: the columns handed to \<^verbatim>\<open>partitionBy\<close>, or \<open>None\<close> when
  the argument is \<^verbatim>\<open>None\<close> or an empty list and \<^verbatim>\<open>partitionBy\<close> is not called.
\<close>

definition partition_arg :: "string list option \<Rightarrow> string list option" where
  "partition_arg partition_columns =
     (case partition_columns of
        None \<Rightarrow> None
      | Some [] \<Rightarrow> None
      | Some (c # cs) \<Rightarrow> Some (c # cs))"

definition save_as_parquet ::
  "'f spark_env \<Rightarrow> 'f \<Rightarrow> string \<Rightarrow> string \<Rightarrow> string list option \<Rightarrow> extract_event list
     \<Rightarrow> (py_error + unit) \<times> extract_event list" where
  "save_as_parquet env df output_path compression_method partition_columns tr =
     (let invalid = (lower compression_method \<notin> set valid_methods);
          tr1 = (if invalid
                 then tr @ [LogWarning (''Invalid compression method: '' @ compression_method
                                          @ ''. Using snappy instead.'')]
                 else tr);
          method = (if invalid then ''snappy'' else compression_method);
          df_with_timestamp = with_column env df ''extraction_timestamp'' (now_string env);
          parts = partition_arg partition_columns;
          tr2 = tr1 @ [SparkWriteParquet method parts output_path]
      in case write_parquet env df_with_timestamp method parts output_path of
           Some m \<Rightarrow> (Inl (EngineError m), tr2)
         | None \<Rightarrow> (Inr (), tr2))"

subsection \<open>The command\<close>

text \<open>
  The command line as argparse sees it; the connection parameters hold the environment
  default when the flag is absent.
\<close>

record extract_args =
  x_server :: "string option"
  x_database :: "string option"
  x_username :: "string option"
  x_password :: "string option"
  x_table :: "string option"
  x_query :: "string option"
  x_output_path :: "string option"
  x_compression :: string
  x_partition_by :: "string list option"
  x_app_name :: string

definition extract_parse_args :: "extract_args \<Rightarrow> py_error + string" where
  "extract_parse_args args =
     (if x_compression args \<notin> set [''snappy'', ''gzip'', ''lzo'', ''zstd'', ''none'']
      then Inl (SystemExit2 ''argument --compression: invalid choice'')
      else case x_output_path args of
             None \<Rightarrow> Inl (SystemExit2 ''the following arguments are required: --output-path'')
           | Some output_path \<Rightarrow> Inr output_path)"

text \<open>
  Lines 127 to 135: the first connection parameter that is absent or empty, with the
  message of \<^verbatim>\<open>parser.error\<close>.
\<close>

fun missing_parameter :: "(string \<times> string option) list \<Rightarrow> py_error option" where
  "missing_parameter [] = None"
| "missing_parameter ((param_name, param_value) # ps) =
     (if \<not> truthy param_value
      then Some (SystemExit2 (''Missing SQL Server parameter: '' @ param_name
                   @ ''. Provide it with --'' @ param_name @ '' or set '' @ upper param_name
                   @ '' in .env file''))
      else missing_parameter ps)"

text \<open>
  The \<^verbatim>\<open>try\<close> block with its handler and its \<^verbatim>\<open>finally\<close>. When
  \<^verbatim>\<open>get_spark_session\<close> raises, \<^verbatim>\<open>spark\<close> is still \<^verbatim>\<open>None\<close> and nothing is stopped.
\<close>

definition extract_try ::
  "'f spark_env \<Rightarrow> extract_args \<Rightarrow> string \<Rightarrow> extract_event list
     \<Rightarrow> (py_error + unit) \<times> extract_event list" where
  "extract_try env args output_path tr =
     (let tr1 = tr @ [SparkGetOrCreate (x_app_name args)]
      in case session_error env (x_app_name args) of
           Some m \<Rightarrow> (Inl (EngineError m), tr1 @ [LogErrorExtract (EngineError m)])
         | None \<Rightarrow>
             (case (case extract_from_sql_server env (x_server args) (x_database args)
                           (x_table args) (x_username args) (x_password args) (x_query args) tr1 of
                      (Inl e, tr2) \<Rightarrow> (Inl e, tr2)
                    | (Inr df, tr2) \<Rightarrow>
                        save_as_parquet env df output_path (x_compression args)
                          (x_partition_by args) tr2) of
                (Inl e, tr3) \<Rightarrow> (Inl e, tr3 @ [LogErrorExtract e, SparkStop])
              | (Inr u, tr3) \<Rightarrow> (Inr (), tr3 @ [SparkStop])))"

definition extract_main ::
  "'f spark_env \<Rightarrow> extract_args \<Rightarrow> extract_event list \<Rightarrow> (py_error + unit) \<times> extract_event list" where
  "extract_main env args tr =
     (case extract_parse_args args of
        Inl e \<Rightarrow> (Inl e, tr)
      | Inr output_path \<Rightarrow>
          if \<not> truthy (x_table args) \<and> \<not> truthy (x_query args)
          then (Inl (SystemExit2 ''Either --table or --query must be specified''), tr)
          else (case missing_parameter
                       [(''server'', x_server args), (''database'', x_database args),
                        (''username'', x_username args), (''password'', x_password args)] of
                  Some e \<Rightarrow> (Inl e, tr)
                | None \<Rightarrow> extract_try env args output_path tr))"

section \<open>Notions used to state the properties\<close>

text \<open>The rows a table holds; a table the database does not have holds none.\<close>

definition committed :: "'r database \<Rightarrow> string option \<times> string \<Rightarrow> 'r list" where
  "committed d key = (case d key of None \<Rightarrow> [] | Some t \<Rightarrow> table_rows t)"

text \<open>
  Batch number \<open>k\<close> (counted from 0) of a list cut into consecutive pieces of \<open>b\<close>
  elements: the specification's view of the batches, against which the loop is compared.
\<close>

definition nth_batch :: "nat \<Rightarrow> 'a list \<Rightarrow> nat \<Rightarrow> 'a list" where
  "nth_batch b xs k = take b (drop (k * b) xs)"

text \<open>The rows handed to a \<^verbatim>\<open>to_sql\<close> call.\<close>

fun to_sql_rows :: "'r event \<Rightarrow> 'r list" where
  "to_sql_rows (ToSql s n b) = b"
| "to_sql_rows e = []"

section \<open>Sample inputs\<close>

text \<open>
  A small archive of orders, a frame of one column and five rows, a frame of 2500 rows,
  a destination that already has a table \<^verbatim>\<open>orders\<close> with one column and one row (in the
  default schema, and in a schema \<^verbatim>\<open>sales\<close>), and engines that accept everything.
\<close>

datatype np_dtype = int64 | float64 | datetime64_ns | object_dtype

definition pandas_ex :: "np_dtype pandas_api" where
  "pandas_ex =
     \<lparr>is_integer_dtype = (\<lambda>d. d = int64),
      is_float_dtype = (\<lambda>d. d = float64),
      is_datetime64_dtype = (\<lambda>d. d = datetime64_ns)\<rparr>"

definition orders_df :: "(np_dtype, nat) dataframe" where
  "orders_df =
     \<lparr>dtypes = [(''id'', int64), (''amount'', float64), (''placed'', datetime64_ns),
                (''note'', object_dtype)],
      rows = [1, 2, 3, 4, 5]\<rparr>"

definition small_df :: "(np_dtype, nat) dataframe" where
  "small_df = \<lparr>dtypes = [(''id'', int64)], rows = [1, 2, 3, 4, 5]\<rparr>"

definition big_df :: "(np_dtype, nat) dataframe" where
  "big_df = \<lparr>dtypes = [(''id'', int64)], rows = replicate 2500 0\<rparr>"

definition env_ex :: "(np_dtype, nat) env" where
  "env_ex =
     \<lparr>pd = pandas_ex,
      path_exists = (\<lambda>p. p = ''/data/orders''),
      duck_execute = (\<lambda>h q. Inr orders_df),
      to_sql_error = (\<lambda>k. None),
      mismatch_error = ''Invalid column name'',
      pandas_sql_type = (\<lambda>d. String 255)\<rparr>"

definition old_table :: "nat sql_table" where
  "old_table = \<lparr>columns = [(''id'', Integer)], table_rows = [7]\<rparr>"

definition world_ex :: "nat world" where
  "world_ex = \<lparr>db = [(None, ''orders'') \<mapsto> old_table], trace = []\<rparr>"

definition world_sales :: "nat world" where
  "world_sales = \<lparr>db = [(Some ''sales'', ''orders'') \<mapsto> old_table], trace = []\<rparr>"

definition restore_args_ex :: restore_args where
  "restore_args_ex =
     \<lparr>r_parquet_path = Some ''/data/orders'', r_server = Some ''db1'', r_database = Some ''shop'',
      r_username = Some ''sa'', r_password = Some ''pw'',
      r_driver = ''ODBC Driver 17 for SQL Server'', r_table_name = Some ''orders'',
      r_schema = None, r_if_exists = ''fail'', r_batch_size = 1000, r_transform_query = None\<rparr>"

definition spark_ex :: "nat spark_env" where
  "spark_ex =
     \<lparr>session_error = (\<lambda>app. None),
      read_jdbc = (\<lambda>url table user password. Inr 0),
      count_rows = (\<lambda>df. Inr 3),
      now_string = ''2024-01-01 00:00:00'',
      with_column = (\<lambda>df name v. Suc df),
      write_parquet = (\<lambda>df codec parts path. None)\<rparr>"

definition args_ex :: extract_args where
  "args_ex =
     \<lparr>x_server = Some ''db1'', x_database = Some ''shop'', x_username = Some ''sa'',
      x_password = Some ''pw'', x_table = Some ''orders'', x_query = None,
      x_output_path = Some ''/out'', x_compression = ''snappy'', x_partition_by = None,
      x_app_name = ''SQL-to-Parquet''\<rparr>"

section \<open>Schema mapping is total and follows the precedence\<close>

text \<open>
  C4. Whatever the dtype and the column name, the mapping returns one of the four column
  types; the column name plays no part; and the answer follows the order of the tests:
  integer first, then floating point, then datetime64, then \<^verbatim>\<open>String(255)\<close> for
  everything else.
\<close>

theorem get_sql_data_type_total_precedence:
  "get_sql_data_type p d c \<in> {Integer, Float, DATETIME2, String 255}
   \<and> get_sql_data_type p d c = get_sql_data_type p d c'
   \<and> (is_integer_dtype p d \<longrightarrow> get_sql_data_type p d c = Integer)
   \<and> (\<not> is_integer_dtype p d \<and> is_float_dtype p d \<longrightarrow> get_sql_data_type p d c = Float)
   \<and> (\<not> is_integer_dtype p d \<and> \<not> is_float_dtype p d \<and> is_datetime64_dtype p d
        \<longrightarrow> get_sql_data_type p d c = DATETIME2)
   \<and> (\<not> is_integer_dtype p d \<and> \<not> is_float_dtype p d \<and> \<not> is_datetime64_dtype p d
        \<longrightarrow> get_sql_data_type p d c = String 255)"
  by (simp add: get_sql_data_type_def)

text \<open>One column of each kind of the sample frame.\<close>

theorem get_sql_data_type_total_precedence_witness:
  "get_sql_data_type pandas_ex int64 ''id'' = Integer
   \<and> get_sql_data_type pandas_ex float64 ''amount'' = Float
   \<and> get_sql_data_type pandas_ex datetime64_ns ''placed'' = DATETIME2
   \<and> get_sql_data_type pandas_ex object_dtype ''note'' = String 255"
  using get_sql_data_type_total_precedence[of pandas_ex int64 "''id''" "''id''"]
    get_sql_data_type_total_precedence[of pandas_ex float64 "''amount''" "''amount''"]
    get_sql_data_type_total_precedence[of pandas_ex datetime64_ns "''placed''" "''placed''"]
    get_sql_data_type_total_precedence[of pandas_ex object_dtype "''note''" "''note''"]
  by (simp add: pandas_ex_def)

section \<open>The fail policy\<close>

lemma restore_load_keeps_db:
  assumes "restore_load env q p w = (r, w')"
  shows "db w' = db w \<and> filter is_ToSql (trace w') = filter is_ToSql (trace w)"
  using assms
  by (auto simp: restore_load_def load_parquet_to_pandas_def emit_def Let_def
      split: if_splits sum.splits)

text \<open>
  C2. When the destination already has the table and the policy is \<^verbatim>\<open>fail\<close>,
  \<^verbatim>\<open>insert_data_to_sql\<close> raises \<^verbatim>\<open>ValueError\<close> with a message that contains the table
  name, and the outside is exactly as before: no \<^verbatim>\<open>to_sql\<close> call, the same database.
  A whole run of \<^verbatim>\<open>main\<close> under that policy ends in an error with the database unchanged
  and without any \<^verbatim>\<open>to_sql\<close> call.
\<close>

theorem fail_policy_raises_before_insert:
  assumes "db w (schema, table_name) = Some t"
  shows "insert_data_to_sql env df table_name schema batch_size ''fail'' w =
           (Inl (ValueError (''Table '' @ table_name @ '' already exists'')), w)
       \<and> (restore_parse_args args = Inr (path, table_name) \<and> r_schema args = schema
            \<and> r_if_exists args = ''fail'' \<longrightarrow>
          (\<exists>e w'. restore_main env args w = (Inl e, w') \<and> db w' = db w
             \<and> filter is_ToSql (trace w') = filter is_ToSql (trace w)))"
proof (intro conjI impI)
  show "insert_data_to_sql env df table_name schema batch_size ''fail'' w =
           (Inl (ValueError (''Table '' @ table_name @ '' already exists'')), w)"
    using assms
    by (simp add: insert_data_to_sql_def create_table_if_not_exists_def handle_existing_def)
next
  assume a: "restore_parse_args args = Inr (path, table_name) \<and> r_schema args = schema
            \<and> r_if_exists args = ''fail''"
  obtain r w0 where l: "restore_load env (r_transform_query args) path w = (r, w0)"
    by (cases "restore_load env (r_transform_query args) path w")
  from restore_load_keeps_db[OF l] have k: "db w0 = db w"
    "filter is_ToSql (trace w0) = filter is_ToSql (trace w)" by simp_all
  show "\<exists>e w'. restore_main env args w = (Inl e, w') \<and> db w' = db w
             \<and> filter is_ToSql (trace w') = filter is_ToSql (trace w)"
  proof (cases r)
    case (Inl e)
    then show ?thesis using a l k
      by (simp add: restore_main_def restore_try_def emit_def)
  next
    case (Inr frame)
    have "db (emit CreateEngine w0) (schema, table_name) = Some t"
      using assms k by (simp add: emit_def)
    then have "insert_data_to_sql env frame table_name schema (r_batch_size args) ''fail''
                 (emit CreateEngine w0) =
               (Inl (ValueError (''Table '' @ table_name @ '' already exists'')), emit CreateEngine w0)"
      by (simp add: insert_data_to_sql_def create_table_if_not_exists_def handle_existing_def)
    then show ?thesis using a l k Inr
      by (simp add: restore_main_def restore_try_def emit_def)
  qed
qed

text \<open>The sample destination has \<^verbatim>\<open>orders\<close>; the run leaves its one row alone.\<close>

theorem fail_policy_raises_before_insert_witness:
  "insert_data_to_sql env_ex orders_df ''orders'' None 1000 ''fail'' world_ex =
       (Inl (ValueError ''Table orders already exists''), world_ex)
   \<and> (\<exists>e w'. restore_main env_ex restore_args_ex world_ex = (Inl e, w') \<and> db w' = db world_ex
         \<and> filter is_ToSql (trace w') = filter is_ToSql (trace world_ex))"
proof -
  have h: "db world_ex (None, ''orders'') = Some old_table" by (simp add: world_ex_def)
  have p: "restore_parse_args restore_args_ex = Inr (''/data/orders'', ''orders'')
            \<and> r_schema restore_args_ex = None \<and> r_if_exists restore_args_ex = ''fail''"
    by (simp add: restore_parse_args_def restore_args_ex_def)
  from fail_policy_raises_before_insert[OF h, of env_ex orders_df 1000 restore_args_ex "''/data/orders''"] p
  show ?thesis by simp
qed

section \<open>Batches\<close>

subsection \<open>One call and the loop\<close>

lemma append_rows_fits:
  assumes "insert_fits dts d key"
  shows "insert_fits dts (append_rows env dts key rs d) key"
proof (cases "d key")
  case None
  have "map fst (map (\<lambda>(c, dt). (c, pandas_sql_type env dt)) dts) = map fst dts"
    by (induction dts) auto
  then show ?thesis using None
    by (simp add: insert_fits_def append_rows_def columns_fit_def list_all_iff)
next
  case (Some t)
  then show ?thesis using assms
    by (simp add: insert_fits_def append_rows_def columns_fit_def)
qed

lemma append_rows_committed:
  "committed (append_rows env dts key rs d) key = committed d key @ rs"
  by (simp add: committed_def append_rows_def split: option.splits)

lemma to_sql_ok:
  assumes "insert_fits dts (db w) (s, t)"
    and "to_sql_error env (length (filter is_ToSql (trace w))) = None"
  shows "\<exists>w'. to_sql env dts s t batch w = (Inr (), w')
           \<and> trace w' = trace w @ [ToSql s t batch]
           \<and> committed (db w') (s, t) = committed (db w) (s, t) @ batch
           \<and> insert_fits dts (db w') (s, t)"
  using assms append_rows_fits[OF assms(1), of env batch]
  by (simp add: to_sql_def emit_def Let_def append_rows_committed)

lemma to_sql_fail:
  assumes "insert_fits dts (db w) (s, t)"
    and "to_sql_error env (length (filter is_ToSql (trace w))) = Some (m, j)"
  shows "\<exists>w'. to_sql env dts s t batch w = (Inl (EngineError m), w')
           \<and> trace w' = trace w @ [ToSql s t batch]
           \<and> committed (db w') (s, t) = committed (db w) (s, t) @ take j batch"
  using assms by (simp add: to_sql_def emit_def Let_def append_rows_committed)

text \<open>A table that lacks a column of the frame refuses the first call, and keeps its rows.\<close>

lemma to_sql_mismatch:
  assumes "\<not> insert_fits dts (db w) (s, t)"
  shows "to_sql env dts s t batch w = (Inl (EngineError (mismatch_error env)), emit (ToSql s t batch) w)"
  using assms by (simp add: to_sql_def emit_def Let_def)

text \<open>When no call fails, every offset gets its call and every batch is appended.\<close>

lemma insert_batches_ok:
  assumes "insert_fits (dtypes df) (db w) (if truthy s then s else None, t)"
    and "\<forall>j < length offs. to_sql_error env (length (filter is_ToSql (trace w)) + j) = None"
  shows "\<exists>w'. insert_batches env df t s B offs w = (Inr (), w')
           \<and> trace w' = trace w @ map (\<lambda>i. ToSql (if truthy s then s else None) t
                                          (iloc (rows df) i (min (i + B) (int (length (rows df)))))) offs
           \<and> committed (db w') (if truthy s then s else None, t) =
               committed (db w) (if truthy s then s else None, t)
                 @ concat (map (\<lambda>i. iloc (rows df) i (min (i + B) (int (length (rows df))))) offs)"
  using assms
proof (induction offs arbitrary: w)
  case Nil
  then show ?case by simp
next
  case (Cons i offs)
  let ?s = "if truthy s then s else None"
  let ?b = "iloc (rows df) i (min (i + B) (int (length (rows df))))"
  from Cons.prems have h0: "to_sql_error env (length (filter is_ToSql (trace w))) = None"
    by force
  from to_sql_ok[OF Cons.prems(1) h0, of ?b] obtain w1 where
    w1: "to_sql env (dtypes df) ?s t ?b w = (Inr (), w1)"
        "trace w1 = trace w @ [ToSql ?s t ?b]"
        "committed (db w1) (?s, t) = committed (db w) (?s, t) @ ?b"
        "insert_fits (dtypes df) (db w1) (?s, t)"
    by blast
  have "\<forall>j < length offs. to_sql_error env (length (filter is_ToSql (trace w1)) + j) = None"
  proof (intro allI impI)
    fix j assume "j < length offs"
    then have "Suc j < length (i # offs)" by simp
    with Cons.prems have "to_sql_error env (length (filter is_ToSql (trace w)) + Suc j) = None"
      by blast
    then show "to_sql_error env (length (filter is_ToSql (trace w1)) + j) = None"
      by (simp add: w1(2))
  qed
  from Cons.IH[OF w1(4) this] obtain w' where
    w': "insert_batches env df t s B offs w1 = (Inr (), w')"
        "trace w' = trace w1 @ map (\<lambda>i. ToSql ?s t (iloc (rows df) i (min (i + B) (int (length (rows df)))))) offs"
        "committed (db w') (?s, t) = committed (db w1) (?s, t)
           @ concat (map (\<lambda>i. iloc (rows df) i (min (i + B) (int (length (rows df))))) offs)"
    by blast
  show ?case
    using w1 w' by (simp add: Let_def)
qed

text \<open>
  When call number \<open>k\<close> is the first to fail, the loop stops there: \<open>k + 1\<close> calls were
  made, the first \<open>k\<close> batches are in the table, and after them the rows that the
  failing call had written.
\<close>

lemma insert_batches_fail:
  assumes "insert_fits (dtypes df) (db w) (if truthy s then s else None, t)"
    and "k < length offs"
    and "\<forall>j < k. to_sql_error env (length (filter is_ToSql (trace w)) + j) = None"
    and "to_sql_error env (length (filter is_ToSql (trace w)) + k) = Some (m, n)"
  shows "\<exists>w'. insert_batches env df t s B offs w = (Inl (EngineError m), w')
           \<and> trace w' = trace w @ map (\<lambda>i. ToSql (if truthy s then s else None) t
                                          (iloc (rows df) i (min (i + B) (int (length (rows df))))))
                                     (take (Suc k) offs)
           \<and> committed (db w') (if truthy s then s else None, t) =
               committed (db w) (if truthy s then s else None, t)
                 @ concat (map (\<lambda>i. iloc (rows df) i (min (i + B) (int (length (rows df)))))
                             (take k offs))
                 @ take n (iloc (rows df) (offs ! k) (min (offs ! k + B) (int (length (rows df)))))"
  using assms
proof (induction offs arbitrary: w k)
  case Nil
  then show ?case by simp
next
  case (Cons i offs)
  let ?s = "if truthy s then s else None"
  let ?b = "iloc (rows df) i (min (i + B) (int (length (rows df))))"
  show ?case
  proof (cases k)
    case 0
    with Cons.prems have bad: "to_sql_error env (length (filter is_ToSql (trace w))) = Some (m, n)"
      by simp
    from to_sql_fail[OF Cons.prems(1) bad, of ?b] obtain w' where
      "to_sql env (dtypes df) ?s t ?b w = (Inl (EngineError m), w')"
      "trace w' = trace w @ [ToSql ?s t ?b]"
      "committed (db w') (?s, t) = committed (db w) (?s, t) @ take n ?b"
      by blast
    then show ?thesis
      using 0 by (simp add: Let_def)
  next
    case (Suc k')
    with Cons.prems have h0: "to_sql_error env (length (filter is_ToSql (trace w))) = None"
      by force
    from to_sql_ok[OF Cons.prems(1) h0, of ?b] obtain w1 where
      w1: "to_sql env (dtypes df) ?s t ?b w = (Inr (), w1)"
          "trace w1 = trace w @ [ToSql ?s t ?b]"
          "committed (db w1) (?s, t) = committed (db w) (?s, t) @ ?b"
          "insert_fits (dtypes df) (db w1) (?s, t)"
      by blast
    have a: "k' < length offs" using Cons.prems Suc by simp
    have b: "\<forall>j < k'. to_sql_error env (length (filter is_ToSql (trace w1)) + j) = None"
    proof (intro allI impI)
      fix j assume "j < k'"
      then have "Suc j < k" using Suc by simp
      with Cons.prems have "to_sql_error env (length (filter is_ToSql (trace w)) + Suc j) = None"
        by blast
      then show "to_sql_error env (length (filter is_ToSql (trace w1)) + j) = None"
        by (simp add: w1(2))
    qed
    have c: "to_sql_error env (length (filter is_ToSql (trace w1)) + k') = Some (m, n)"
      using Cons.prems(4) Suc by (simp add: w1(2))
    from Cons.IH[OF w1(4) a b c] obtain w' where
      w': "insert_batches env df t s B offs w1 = (Inl (EngineError m), w')"
          "trace w' = trace w1 @ map (\<lambda>i. ToSql ?s t (iloc (rows df) i (min (i + B) (int (length (rows df))))))
                                    (take (Suc k') offs)"
          "committed (db w') (?s, t) = committed (db w1) (?s, t)
             @ concat (map (\<lambda>i. iloc (rows df) i (min (i + B) (int (length (rows df))))) (take k' offs))
             @ take n (iloc (rows df) (offs ! k') (min (offs ! k' + B) (int (length (rows df)))))"
      by blast
    show ?thesis
      using w1 w' Suc by (simp add: Let_def)
  qed
qed

subsection \<open>The offsets and the slices\<close>

lemma range_len_pos:
  assumes "0 < B" "0 \<le> N"
  shows "range_len 0 N B = nat ((N + B - 1) div B)"
proof (cases "N = 0")
  case True
  then show ?thesis using assms by (simp add: range_len_def div_pos_pos_trivial)
next
  case False
  then have "0 < N" using assms by simp
  have "B \<noteq> 0" using assms by simp
  then have "(N - 1 + B) div B = (N - 1) div B + 1"
    by (rule div_add_self2)
  then show ?thesis using \<open>0 < N\<close> assms by (simp add: range_len_def algebra_simps)
qed

lemma offsets_pos:
  assumes "0 < B"
  shows "py_range 0 (int n) B = Inr (map (\<lambda>k. int k * B) [0 ..< (n + nat B - 1) div nat B])"
proof -
  obtain b where b: "B = int b" "0 < b"
    using assms by (metis nat_eq_iff2 less_imp_le zero_less_nat_eq)
  have "nat ((int n + int b - 1) div int b) = (n + b - 1) div b"
  proof -
    have e: "int n + int b - 1 = int (n + b - 1)" using b by (simp add: of_nat_diff)
    have "int ((n + b - 1) div b) = int (n + b - 1) div int b" by (rule zdiv_int)
    then have "int ((n + b - 1) div b) = (int n + int b - 1) div int b" unfolding e .
    then have "nat (int ((n + b - 1) div b)) = nat ((int n + int b - 1) div int b)" by (rule arg_cong)
    then show ?thesis by (simp only: nat_int)
  qed
  then show ?thesis
    using assms range_len_pos[of B "int n"] by (simp add: py_range_def b)
qed

lemma iloc_batch:
  assumes "0 < B"
  shows "iloc xs (int k * B) (min (int k * B + B) (int (length xs))) = nth_batch (nat B) xs k"
proof -
  obtain b where b: "B = int b" "0 < b"
    using assms by (metis nat_eq_iff2 less_imp_le zero_less_nat_eq)
  show ?thesis
    unfolding b
    by (simp add: iloc_def slice_index_def nth_batch_def Let_def min_def
        flip: of_nat_mult of_nat_add)
qed

lemma map_offsets_batches:
  assumes "0 < B"
  shows "map (\<lambda>i. f (iloc xs i (min (i + B) (int (length xs))))) (map (\<lambda>k. int k * B) ks)
           = map (\<lambda>k. f (nth_batch (nat B) xs k)) ks"
  using iloc_batch[OF assms, of xs] by (simp add: comp_def)

lemma map_offsets_rows:
  assumes "0 < B"
  shows "map (\<lambda>i. iloc xs i (min (i + B) (int (length xs)))) (map (\<lambda>k. int k * B) ks)
           = map (nth_batch (nat B) xs) ks"
  using iloc_batch[OF assms, of xs] by (simp add: comp_def)

subsection \<open>Sizes of the batches\<close>

lemma concat_nth_batch:
  "concat (map (nth_batch b xs) [0 ..< k]) = take (k * b) xs"
proof (induction k)
  case 0
  then show ?case by simp
next
  case (Suc k)
  have "take (k * b + b) xs = take (k * b) xs @ take b (drop (k * b) xs)"
    by (rule take_add)
  with Suc show ?case by (simp add: nth_batch_def add.commute)
qed

lemma ceil_div_covers:
  assumes "0 < (b::nat)"
  shows "n \<le> ((n + b - 1) div b) * b"
proof -
  have "n + b - 1 = ((n + b - 1) div b) * b + (n + b - 1) mod b"
    by simp
  moreover have "(n + b - 1) mod b < b" using assms by simp
  ultimately show ?thesis by linarith
qed

lemma ceil_div_pred:
  assumes "0 < (b::nat)" "0 < n"
  shows "(n + b - 1) div b = Suc ((n - 1) div b)"
proof -
  have e: "n + b - 1 = (n - 1) + b" using assms by simp
  have "b \<noteq> 0" using assms by simp
  then have "((n - 1) + b) div b = (n - 1) div b + 1" by (rule div_add_self2)
  then have "(n + b - 1) div b = (n - 1) div b + 1" by (simp only: e)
  then show ?thesis by simp
qed

lemma length_nth_batch: "length (nth_batch b xs k) = min b (length xs - k * b)"
  by (simp add: nth_batch_def min.commute)

lemma full_batches:
  assumes "0 < (b::nat)" "Suc k < (length xs + b - 1) div b"
  shows "length (nth_batch b xs k) = b"
proof -
  have npos: "0 < length xs" using assms by (cases "length xs = 0") auto
  have "Suc k \<le> (length xs - 1) div b"
    using assms ceil_div_pred[OF assms(1) npos] by simp
  then have "Suc k * b \<le> ((length xs - 1) div b) * b" by (rule mult_le_mono1)
  also have "\<dots> \<le> length xs - 1" by simp
  finally have "k * b + b \<le> length xs" by simp
  then show ?thesis by (simp add: length_nth_batch)
qed

lemma last_batch:
  assumes "0 < (b::nat)" "0 < length xs"
  shows "length (nth_batch b xs ((length xs + b - 1) div b - 1)) =
           (if length xs mod b = 0 then b else length xs mod b)"
proof -
  let ?n = "length xs"
  have e: "(?n + b - 1) div b - 1 = (?n - 1) div b"
    using ceil_div_pred[OF assms] by simp
  have d: "?n - 1 = ((?n - 1) div b) * b + (?n - 1) mod b" by simp
  then have r: "?n - ((?n - 1) div b) * b = Suc ((?n - 1) mod b)"
    using assms by linarith
  have lt: "(?n - 1) mod b < b" using assms by simp
  have m: "Suc ((?n - 1) mod b) = (if ?n mod b = 0 then b else ?n mod b)"
  proof -
    have "?n = Suc (?n - 1)" using assms by simp
    then have "?n mod b = Suc (?n - 1) mod b" by simp
    also have "\<dots> = (if Suc ((?n - 1) mod b) = b then 0 else Suc ((?n - 1) mod b))"
      by (rule mod_Suc)
    finally show ?thesis using lt by (auto split: if_splits)
  qed
  have "Suc ((?n - 1) mod b) \<le> b" using lt by simp
  then have "min b (Suc ((?n - 1) mod b)) = Suc ((?n - 1) mod b)" by simp
  then have "min b (?n - ((?n - 1) div b) * b) = (if ?n mod b = 0 then b else ?n mod b)"
    by (simp only: r m)
  then show ?thesis
    unfolding e length_nth_batch .
qed

subsection \<open>The batches of a run\<close>

text \<open>
  C3 as stated fails in its last part: the script opens no transaction, so a call that
  fails midway leaves the rows it had written. Five rows in batches of two into the
  existing \<^verbatim>\<open>orders\<close>, with a second call that raises after its first row: the table
  holds its old row, the first batch, and row 3 of the second batch.
\<close>

theorem failing_batch_leaves_rows:
  "insert_data_to_sql
     (env_ex\<lparr>to_sql_error := (\<lambda>k. if k = 1 then Some (''connection lost'', 1) else None)\<rparr>)
     small_df ''orders'' None 2 ''append'' world_ex =
   (Inl (EngineError ''connection lost''),
    \<lparr>db = [(None, ''orders'') \<mapsto> \<lparr>columns = [(''id'', Integer)], table_rows = [7, 1, 2, 3]\<rparr>],
     trace = [ToSql None ''orders'' [1, 2], ToSql None ''orders'' [3, 4]]\<rparr>)"
  by (simp add: insert_data_to_sql_def create_table_if_not_exists_def handle_existing_def
      world_ex_def old_table_def small_df_def env_ex_def py_range_def range_len_def to_sql_def
      insert_fits_def columns_fit_def append_rows_def emit_def truthy_def iloc_def
      slice_index_def Let_def upt_rec)

text \<open>
  C3, amended. With a positive batch size \<open>B\<close> and \<open>N\<close> rows, once the table has been
  reconciled and has the columns of the frame: there are \<open>\<lceil>N / B\<rceil>\<close> batches; every batch
  but the last has \<open>B\<close> rows and the last has \<open>N mod B\<close> rows, or \<open>B\<close> when \<open>B\<close> divides
  \<open>N\<close>; when no call fails there is one \<^verbatim>\<open>to_sql\<close> call per batch, in order, and the table
  ends with all the rows appended; when call number \<open>k\<close> (from 0) is the first to fail,
  the run ends with that error after \<open>k + 1\<close> calls, and the table holds the first \<open>k\<close>
  batches, then the rows of batch \<open>k\<close> that the failing call had written (none when the
  driver rolls the call back), and nothing of the batches after it.
\<close>

theorem batched_insertion:
  assumes "0 < B"
    and "create_table_if_not_exists env df t s ie w = (Inr u, w1)"
    and "insert_fits (dtypes df) (db w1) (if truthy s then s else None, t)"
  shows
    "(\<forall>k. Suc k < (length (rows df) + nat B - 1) div nat B \<longrightarrow>
          length (nth_batch (nat B) (rows df) k) = nat B)
     \<and> (rows df \<noteq> [] \<longrightarrow>
          length (nth_batch (nat B) (rows df) ((length (rows df) + nat B - 1) div nat B - 1)) =
            (if length (rows df) mod nat B = 0 then nat B else length (rows df) mod nat B))
     \<and> ((\<forall>j < (length (rows df) + nat B - 1) div nat B.
            to_sql_error env (length (filter is_ToSql (trace w1)) + j) = None) \<longrightarrow>
          (\<exists>w'. insert_data_to_sql env df t s B ie w = (Inr (), w')
             \<and> trace w' = trace w1 @ map (\<lambda>k. ToSql (if truthy s then s else None) t
                                             (nth_batch (nat B) (rows df) k))
                                        [0 ..< (length (rows df) + nat B - 1) div nat B]
             \<and> committed (db w') (if truthy s then s else None, t) =
                 committed (db w1) (if truthy s then s else None, t) @ rows df))
     \<and> (\<forall>k m n. k < (length (rows df) + nat B - 1) div nat B
            \<and> (\<forall>j < k. to_sql_error env (length (filter is_ToSql (trace w1)) + j) = None)
            \<and> to_sql_error env (length (filter is_ToSql (trace w1)) + k) = Some (m, n) \<longrightarrow>
          (\<exists>w'. insert_data_to_sql env df t s B ie w = (Inl (EngineError m), w')
             \<and> trace w' = trace w1 @ map (\<lambda>k. ToSql (if truthy s then s else None) t
                                             (nth_batch (nat B) (rows df) k)) [0 ..< Suc k]
             \<and> committed (db w') (if truthy s then s else None, t) =
                 committed (db w1) (if truthy s then s else None, t)
                   @ take (k * nat B) (rows df)
                   @ take n (nth_batch (nat B) (rows df) k)))"
proof -
  let ?n = "length (rows df)"
  let ?b = "nat B"
  let ?nb = "(?n + ?b - 1) div ?b"
  let ?s = "if truthy s then s else None"
  let ?offs = "map (\<lambda>k. int k * B) [0 ..< ?nb]"
  have bpos: "0 < ?b" using assms(1) by simp
  have run: "insert_data_to_sql env df t s B ie w = insert_batches env df t s B ?offs w1"
    using assms(2) offsets_pos[OF assms(1), of ?n] by (simp add: insert_data_to_sql_def)
  have A: "\<forall>k. Suc k < ?nb \<longrightarrow> length (nth_batch ?b (rows df) k) = ?b"
    using full_batches[OF bpos] by blast
  have B: "rows df \<noteq> [] \<longrightarrow> length (nth_batch ?b (rows df) (?nb - 1)) =
             (if ?n mod ?b = 0 then ?b else ?n mod ?b)"
    using last_batch[OF bpos, of "rows df"] by simp
  have C: "(\<forall>j < ?nb. to_sql_error env (length (filter is_ToSql (trace w1)) + j) = None) \<longrightarrow>
          (\<exists>w'. insert_data_to_sql env df t s B ie w = (Inr (), w')
             \<and> trace w' = trace w1 @ map (\<lambda>k. ToSql ?s t (nth_batch ?b (rows df) k)) [0 ..< ?nb]
             \<and> committed (db w') (?s, t) = committed (db w1) (?s, t) @ rows df)"
  proof
    assume ok: "\<forall>j < ?nb. to_sql_error env (length (filter is_ToSql (trace w1)) + j) = None"
    then have "\<forall>j < length ?offs. to_sql_error env (length (filter is_ToSql (trace w1)) + j) = None"
      by simp
    from insert_batches_ok[OF assms(3) this, of B] obtain w' where
      w': "insert_batches env df t s B ?offs w1 = (Inr (), w')"
          "trace w' = trace w1 @ map (\<lambda>i. ToSql ?s t (iloc (rows df) i (min (i + B) (int ?n)))) ?offs"
          "committed (db w') (?s, t) = committed (db w1) (?s, t)
             @ concat (map (\<lambda>i. iloc (rows df) i (min (i + B) (int ?n))) ?offs)"
      by blast
    have all: "concat (map (nth_batch ?b (rows df)) [0 ..< ?nb]) = rows df"
      using ceil_div_covers[OF bpos, of ?n] by (simp add: concat_nth_batch)
    have t': "trace w' = trace w1 @ map (\<lambda>k. ToSql ?s t (nth_batch ?b (rows df) k)) [0 ..< ?nb]"
      using w'(2) by (simp only: map_offsets_batches[OF assms(1)])
    have c': "committed (db w') (?s, t) = committed (db w1) (?s, t) @ rows df"
      using w'(3) by (simp only: map_offsets_rows[OF assms(1)] all)
    show "\<exists>w'. insert_data_to_sql env df t s B ie w = (Inr (), w')
             \<and> trace w' = trace w1 @ map (\<lambda>k. ToSql ?s t (nth_batch ?b (rows df) k)) [0 ..< ?nb]
             \<and> committed (db w') (?s, t) = committed (db w1) (?s, t) @ rows df"
      using run w'(1) t' c' by auto
  qed
  have D: "\<forall>k m n. k < ?nb
            \<and> (\<forall>j < k. to_sql_error env (length (filter is_ToSql (trace w1)) + j) = None)
            \<and> to_sql_error env (length (filter is_ToSql (trace w1)) + k) = Some (m, n) \<longrightarrow>
          (\<exists>w'. insert_data_to_sql env df t s B ie w = (Inl (EngineError m), w')
             \<and> trace w' = trace w1 @ map (\<lambda>k. ToSql ?s t (nth_batch ?b (rows df) k)) [0 ..< Suc k]
             \<and> committed (db w') (?s, t) = committed (db w1) (?s, t) @ take (k * ?b) (rows df)
                  @ take n (nth_batch ?b (rows df) k))"
  proof (intro allI impI, elim conjE)
    fix k m n
    assume k: "k < ?nb"
      and ok: "\<forall>j < k. to_sql_error env (length (filter is_ToSql (trace w1)) + j) = None"
      and bad: "to_sql_error env (length (filter is_ToSql (trace w1)) + k) = Some (m, n)"
    have kl: "k < length ?offs" using k by simp
    from insert_batches_fail[OF assms(3) kl ok bad, of B] obtain w' where
      w': "insert_batches env df t s B ?offs w1 = (Inl (EngineError m), w')"
          "trace w' = trace w1 @ map (\<lambda>i. ToSql ?s t (iloc (rows df) i (min (i + B) (int ?n))))
                                    (take (Suc k) ?offs)"
          "committed (db w') (?s, t) = committed (db w1) (?s, t)
             @ concat (map (\<lambda>i. iloc (rows df) i (min (i + B) (int ?n))) (take k ?offs))
             @ take n (iloc (rows df) (?offs ! k) (min (?offs ! k + B) (int ?n)))"
      by blast
    have tk1: "take (Suc k) ?offs = map (\<lambda>k. int k * B) [0 ..< Suc k]"
      using k by (simp only: take_map take_upt) simp
    have tk: "take k ?offs = map (\<lambda>k. int k * B) [0 ..< k]"
      using k by (simp only: take_map take_upt) simp
    have nk: "?offs ! k = int k * B" using k by simp
    have t': "trace w' = trace w1 @ map (\<lambda>k. ToSql ?s t (nth_batch ?b (rows df) k)) [0 ..< Suc k]"
      using w'(2) by (simp only: tk1 map_offsets_batches[OF assms(1)])
    have c': "committed (db w') (?s, t) = committed (db w1) (?s, t) @ take (k * ?b) (rows df)
                @ take n (nth_batch ?b (rows df) k)"
      using w'(3)
      by (simp only: tk nk map_offsets_rows[OF assms(1)] concat_nth_batch iloc_batch[OF assms(1)])
    show "\<exists>w'. insert_data_to_sql env df t s B ie w = (Inl (EngineError m), w')
             \<and> trace w' = trace w1 @ map (\<lambda>k. ToSql ?s t (nth_batch ?b (rows df) k)) [0 ..< Suc k]
             \<and> committed (db w') (?s, t) = committed (db w1) (?s, t) @ take (k * ?b) (rows df)
                  @ take n (nth_batch ?b (rows df) k)"
      using run w'(1) t' c' by auto
  qed
  from A B C D show ?thesis by blast
qed

text \<open>
  2500 rows in batches of 1000 into the existing \<^verbatim>\<open>orders\<close> under \<^verbatim>\<open>append\<close>: three calls,
  of 1000, 1000 and 500 rows, and the table ends with its old row and the 2500 new ones.
  When the third call fails after 300 of its rows, the run ends with its error after
  three calls and the table holds its old row, the first 2000 rows and those 300.
\<close>

theorem batched_insertion_witness:
  "(\<exists>w'. insert_data_to_sql env_ex big_df ''orders'' None 1000 ''append'' world_ex = (Inr (), w')
      \<and> map (length \<circ> to_sql_rows) (trace w') = [1000, 1000, 500]
      \<and> committed (db w') (None, ''orders'') = 7 # replicate 2500 0)
   \<and> (\<exists>w'. insert_data_to_sql
               (env_ex\<lparr>to_sql_error := (\<lambda>k. if k = 2 then Some (''connection lost'', 300) else None)\<rparr>)
               big_df ''orders'' None 1000 ''append'' world_ex
             = (Inl (EngineError ''connection lost''), w')
      \<and> map (length \<circ> to_sql_rows) (trace w') = [1000, 1000, 500]
      \<and> committed (db w') (None, ''orders'') = 7 # replicate 2000 0 @ replicate 300 0)"
proof -
  let ?bad = "env_ex\<lparr>to_sql_error := (\<lambda>k. if k = 2 then Some (''connection lost'', 300) else None)\<rparr>"
  have pos: "(0::int) < 1000" by simp
  have nb: "(length (rows big_df) + nat 1000 - 1) div nat 1000 = 3"
    by (simp add: big_df_def)
  have rec: "create_table_if_not_exists env_ex big_df ''orders'' None ''append'' world_ex = (Inr (), world_ex)"
    by (simp add: create_table_if_not_exists_def handle_existing_def world_ex_def)
  have fits: "insert_fits (dtypes big_df) (db world_ex) (if truthy None then None else None, ''orders'')"
    by (simp add: insert_fits_def columns_fit_def world_ex_def old_table_def big_df_def truthy_def)
  have ok: "\<forall>j < (length (rows big_df) + nat 1000 - 1) div nat 1000.
              to_sql_error env_ex (length (filter is_ToSql (trace world_ex)) + j) = None"
    by (simp add: env_ex_def)
  from batched_insertion[OF pos rec fits] ok obtain w' where
    w': "insert_data_to_sql env_ex big_df ''orders'' None 1000 ''append'' world_ex = (Inr (), w')"
        "trace w' = trace world_ex @ map (\<lambda>k. ToSql (if truthy None then None else None) ''orders''
                                             (nth_batch (nat 1000) (rows big_df) k))
                                        [0 ..< (length (rows big_df) + nat 1000 - 1) div nat 1000]"
        "committed (db w') (if truthy None then None else None, ''orders'') =
                 committed (db world_ex) (if truthy None then None else None, ''orders'') @ rows big_df"
    by blast
  have sizes: "map (length \<circ> to_sql_rows) (trace w') = [1000, 1000, 500]"
    unfolding w'(2) nb by (simp add: world_ex_def big_df_def nth_batch_def upt_rec)
  have all: "committed (db w') (None, ''orders'') = 7 # replicate 2500 0"
    using w'(3) by (simp add: truthy_def committed_def world_ex_def big_df_def old_table_def)
  have first: "\<exists>w'. insert_data_to_sql env_ex big_df ''orders'' None 1000 ''append'' world_ex = (Inr (), w')
      \<and> map (length \<circ> to_sql_rows) (trace w') = [1000, 1000, 500]
      \<and> committed (db w') (None, ''orders'') = 7 # replicate 2500 0"
    by (rule exI[of _ w']) (simp only: w'(1) sizes all simp_thms)
  have rec2: "create_table_if_not_exists ?bad big_df ''orders'' None ''append'' world_ex = (Inr (), world_ex)"
    by (simp add: create_table_if_not_exists_def handle_existing_def world_ex_def)
  have bad: "2 < (length (rows big_df) + nat 1000 - 1) div nat 1000
            \<and> (\<forall>j < 2. to_sql_error ?bad (length (filter is_ToSql (trace world_ex)) + j) = None)
            \<and> to_sql_error ?bad (length (filter is_ToSql (trace world_ex)) + 2)
                = Some (''connection lost'', 300)"
    by (simp add: big_df_def world_ex_def)
  from batched_insertion[OF pos rec2 fits] bad obtain v' where
    v': "insert_data_to_sql ?bad big_df ''orders'' None 1000 ''append'' world_ex
           = (Inl (EngineError ''connection lost''), v')"
        "trace v' = trace world_ex @ map (\<lambda>k. ToSql (if truthy None then None else None) ''orders''
                                             (nth_batch (nat 1000) (rows big_df) k)) [0 ..< Suc 2]"
        "committed (db v') (if truthy None then None else None, ''orders'') =
                 committed (db world_ex) (if truthy None then None else None, ''orders'')
                   @ take (2 * nat 1000) (rows big_df)
                   @ take 300 (nth_batch (nat 1000) (rows big_df) 2)"
    by blast
  have sizes2: "map (length \<circ> to_sql_rows) (trace v') = [1000, 1000, 500]"
    unfolding v'(2) by (simp add: world_ex_def big_df_def nth_batch_def upt_rec)
  have part: "committed (db v') (None, ''orders'') = 7 # replicate 2000 0 @ replicate 300 0"
    using v'(3) by (simp add: truthy_def committed_def world_ex_def big_df_def old_table_def nth_batch_def)
  have second: "\<exists>w'. insert_data_to_sql ?bad big_df ''orders'' None 1000 ''append'' world_ex
             = (Inl (EngineError ''connection lost''), w')
      \<and> map (length \<circ> to_sql_rows) (trace w') = [1000, 1000, 500]
      \<and> committed (db w') (None, ''orders'') = 7 # replicate 2000 0 @ replicate 300 0"
    by (rule exI[of _ v']) (simp only: v'(1) sizes2 part simp_thms)
  from first second show ?thesis by (rule conjI)
qed

section \<open>A batch size that is not positive\<close>

text \<open>A key of the form \<^verbatim>\<open>schema.name\<close> is never the bare name.\<close>

lemma qualified_key_differs: "s @ ''.'' @ t \<noteq> t"
proof
  assume "s @ ''.'' @ t = t"
  then have "length (s @ ''.'' @ t) = length t" by simp
  then show False by simp
qed

text \<open>The reconciliation raises only under the policy \<^verbatim>\<open>fail\<close>.\<close>

lemma reconcile_returns_unless_fail:
  assumes "if_exists \<noteq> ''fail''"
  shows "\<exists>w1. create_table_if_not_exists env df t s if_exists w = (Inr (), w1)"
proof (cases s)
  case None
  then show ?thesis using assms
    by (simp add: create_table_if_not_exists_def handle_existing_def reflect_def get_table_key_def
        split: option.splits)
next
  case (Some x)
  then show ?thesis using assms qualified_key_differs[of x t]
    by (simp add: create_table_if_not_exists_def handle_existing_def reflect_def get_table_key_def
        split: option.splits)
qed

text \<open>
  C10. For a frame with at least one row, once the reconciliation has returned: a batch
  size of 0 raises the \<^verbatim>\<open>ValueError\<close> of \<^verbatim>\<open>range\<close>, a negative batch size returns
  normally, and in both cases the outside is as the reconciliation left it: no \<^verbatim>\<open>to_sql\<close>
  call was made and no row was inserted.
\<close>

theorem nonpositive_batch_size:
  assumes "rows df \<noteq> []"
    and "create_table_if_not_exists env df table_name schema if_exists w = (Inr u, w1)"
  shows "insert_data_to_sql env df table_name schema 0 if_exists w =
           (Inl (ValueError ''range() arg 3 must not be zero''), w1)
       \<and> (batch_size < 0 \<longrightarrow>
            insert_data_to_sql env df table_name schema batch_size if_exists w = (Inr (), w1))"
  using assms by (simp add: insert_data_to_sql_def py_range_def range_len_def)

text \<open>
  The sample destination has no \<^verbatim>\<open>orders\<close> in the schema \<^verbatim>\<open>sales\<close>: the table is created,
  and then nothing is inserted.
\<close>

theorem nonpositive_batch_size_witness:
  "insert_data_to_sql env_ex orders_df ''orders'' (Some ''sales'') 0 ''fail'' world_ex =
     (Inl (ValueError ''range() arg 3 must not be zero''),
      world_ex\<lparr>db := (db world_ex)((Some ''sales'', ''orders'') \<mapsto>
                  \<lparr>columns = [(''id'', Integer), (''amount'', Float), (''placed'', DATETIME2),
                              (''note'', String 255)],
                   table_rows = []\<rparr>),
               trace := [CreateTable (Some ''sales'') ''orders''
                           [(''id'', Integer), (''amount'', Float), (''placed'', DATETIME2),
                            (''note'', String 255)]]\<rparr>)
   \<and> insert_data_to_sql env_ex orders_df ''orders'' (Some ''sales'') (- 5) ''fail'' world_ex =
     (Inr (),
      world_ex\<lparr>db := (db world_ex)((Some ''sales'', ''orders'') \<mapsto>
                  \<lparr>columns = [(''id'', Integer), (''amount'', Float), (''placed'', DATETIME2),
                              (''note'', String 255)],
                   table_rows = []\<rparr>),
               trace := [CreateTable (Some ''sales'') ''orders''
                           [(''id'', Integer), (''amount'', Float), (''placed'', DATETIME2),
                            (''note'', String 255)]]\<rparr>)"
proof -
  have ne: "rows orders_df \<noteq> []" by (simp add: orders_df_def)
  have rec: "create_table_if_not_exists env_ex orders_df ''orders'' (Some ''sales'') ''fail'' world_ex =
      (Inr (),
       world_ex\<lparr>db := (db world_ex)((Some ''sales'', ''orders'') \<mapsto>
                  \<lparr>columns = [(''id'', Integer), (''amount'', Float), (''placed'', DATETIME2),
                              (''note'', String 255)],
                   table_rows = []\<rparr>),
               trace := [CreateTable (Some ''sales'') ''orders''
                           [(''id'', Integer), (''amount'', Float), (''placed'', DATETIME2),
                            (''note'', String 255)]]\<rparr>)"
    by (simp add: create_table_if_not_exists_def create_all_def emit_def world_ex_def orders_df_def
        env_ex_def pandas_ex_def get_sql_data_type_def)
  from nonpositive_batch_size[OF ne rec, of "- 5"] show ?thesis by simp
qed

section \<open>The replace policy\<close>

text \<open>
  Without a schema the existing table is dropped, created again with the mapped columns
  in the order of the frame's columns, and left empty for the insertion.
\<close>

lemma replace_default_schema:
  assumes "db w (None, t) = Some tab"
  shows "create_table_if_not_exists env df t None ''replace'' w =
           (Inr (),
            w\<lparr>db := (db w)((None, t) \<mapsto>
                     \<lparr>columns = map (\<lambda>(c, d). (c, get_sql_data_type (pd env) d c)) (dtypes df),
                      table_rows = []\<rparr>),
              trace := trace w @
                     [DropTable None t,
                      CreateTable None t
                        (map (\<lambda>(c, d). (c, get_sql_data_type (pd env) d c)) (dtypes df))]\<rparr>)"
  using assms
  by (simp add: create_table_if_not_exists_def handle_existing_def reflect_def get_table_key_def
      create_all_def drop_table_def emit_def)

text \<open>
  With a schema the reflected table is filed under \<^verbatim>\<open>schema.name\<close>, the test
  \<^verbatim>\<open>table_name in metadata.tables\<close> looks for the bare name and fails, nothing is dropped,
  and \<^verbatim>\<open>create_all\<close> finds the table and skips it: the reconciliation changes nothing.
\<close>

lemma replace_with_schema_no_drop:
  assumes "db w (Some s, t) = Some tab"
  shows "create_table_if_not_exists env df t (Some s) ''replace'' w = (Inr (), w)"
  using assms qualified_key_differs[of s t]
  by (simp add: create_table_if_not_exists_def handle_existing_def reflect_def get_table_key_def
      create_all_def)

text \<open>
  C7, at the failing input: the policy \<^verbatim>\<open>replace\<close> on the table \<^verbatim>\<open>orders\<close> of the schema
  \<^verbatim>\<open>sales\<close>, which holds one row and the one column \<^verbatim>\<open>id\<close>, with a frame of four columns.
  No table is dropped and none is created: the table keeps its old column and its old
  row. The first \<^verbatim>\<open>to_sql\<close> call then names columns that the old table does not have and
  raises, so the run ends in an error with none of the five rows inserted.
\<close>

theorem replace_with_schema_keeps_old_table:
  "insert_data_to_sql env_ex orders_df ''orders'' (Some ''sales'') 1000 ''replace'' world_sales =
     (Inl (EngineError ''Invalid column name''),
      \<lparr>db = [(Some ''sales'', ''orders'') \<mapsto> \<lparr>columns = [(''id'', Integer)], table_rows = [7]\<rparr>],
       trace = [ToSql (Some ''sales'') ''orders'' [1, 2, 3, 4, 5]]\<rparr>)"
  by (simp add: insert_data_to_sql_def create_table_if_not_exists_def handle_existing_def
      reflect_def get_table_key_def create_all_def world_sales_def old_table_def orders_df_def
      env_ex_def py_range_def range_len_def to_sql_def insert_fits_def columns_fit_def
      append_rows_def emit_def truthy_def iloc_def slice_index_def Let_def)

text \<open>
  When the frame has only the column of the old table, the calls go through and the new
  rows are appended after the old one: the table is still not replaced.
\<close>

lemma replace_with_schema_appends_to_old_rows:
  "insert_data_to_sql env_ex small_df ''orders'' (Some ''sales'') 1000 ''replace'' world_sales =
     (Inr (),
      \<lparr>db = [(Some ''sales'', ''orders'') \<mapsto>
               \<lparr>columns = [(''id'', Integer)], table_rows = [7, 1, 2, 3, 4, 5]\<rparr>],
       trace = [ToSql (Some ''sales'') ''orders'' [1, 2, 3, 4, 5]]\<rparr>)"
  by (simp add: insert_data_to_sql_def create_table_if_not_exists_def handle_existing_def
      reflect_def get_table_key_def create_all_def world_sales_def old_table_def small_df_def
      env_ex_def py_range_def range_len_def to_sql_def insert_fits_def columns_fit_def
      append_rows_def emit_def truthy_def iloc_def slice_index_def Let_def)

text \<open>The same run without a schema does what the policy says.\<close>

lemma replace_default_schema_run:
  "insert_data_to_sql env_ex orders_df ''orders'' None 1000 ''replace'' world_ex =
     (Inr (),
      \<lparr>db = [(None, ''orders'') \<mapsto>
               \<lparr>columns = [(''id'', Integer), (''amount'', Float), (''placed'', DATETIME2),
                           (''note'', String 255)],
                table_rows = [1, 2, 3, 4, 5]\<rparr>],
       trace = [DropTable None ''orders'',
                CreateTable None ''orders'' [(''id'', Integer), (''amount'', Float),
                   (''placed'', DATETIME2), (''note'', String 255)],
                ToSql None ''orders'' [1, 2, 3, 4, 5]]\<rparr>)"
  by (simp add: insert_data_to_sql_def create_table_if_not_exists_def handle_existing_def
      reflect_def get_table_key_def create_all_def drop_table_def world_ex_def old_table_def
      orders_df_def env_ex_def pandas_ex_def get_sql_data_type_def py_range_def range_len_def
      to_sql_def insert_fits_def columns_fit_def append_rows_def emit_def truthy_def iloc_def
      slice_index_def Let_def)

section \<open>A missing archive\<close>

text \<open>The direct load tests the path first and touches nothing when it is missing.\<close>

lemma missing_path_direct_load:
  assumes "\<not> path_exists env p"
  shows "load_parquet_to_pandas env p w = (Inl (FileNotFoundError (''Parquet path not found: '' @ p)), w)"
  using assms by (simp add: load_parquet_to_pandas_def)

text \<open>
  With a transformation query the path is never tested: whatever the engine answers, a
  connection is opened and the engine is asked to read the archive, and the error, if
  any, is the engine's, never \<^verbatim>\<open>FileNotFoundError\<close>.
\<close>

lemma transform_load_reads_unchecked:
  assumes "truthy q"
  shows "\<exists>r evs. restore_load env q p w =
           (r, w\<lparr>trace := trace w @ DuckConnect
                    # DuckExecute (''CREATE VIEW parquet_view AS SELECT * FROM read_parquet(''
                                     @ sq @ p @ sq @ '')'') # evs\<rparr>)
         \<and> (\<forall>m. r \<noteq> Inl (FileNotFoundError m))"
proof -
  let ?view = "''CREATE VIEW parquet_view AS SELECT * FROM read_parquet('' @ sq @ p @ sq @ '')''"
  let ?q = "case q of None \<Rightarrow> [] | Some t \<Rightarrow> t"
  show ?thesis
  proof (cases "duck_execute env [] ?view")
    case (Inl m)
    then have "restore_load env q p w =
                 (Inl (EngineError m), w\<lparr>trace := trace w @ DuckConnect # DuckExecute ?view # []\<rparr>)"
      using assms by (simp add: restore_load_def emit_def Let_def)
    then show ?thesis by blast
  next
    case v: (Inr frame)
    show ?thesis
    proof (cases "duck_execute env [?view] ?q")
      case (Inl m)
      then have "restore_load env q p w =
                   (Inl (EngineError m),
                    w\<lparr>trace := trace w @ DuckConnect # DuckExecute ?view # [DuckExecute ?q]\<rparr>)"
        using assms v by (simp add: restore_load_def emit_def Let_def)
      then show ?thesis by blast
    next
      case (Inr res)
      then have "restore_load env q p w =
                   (Inr res,
                    w\<lparr>trace := trace w @ DuckConnect # DuckExecute ?view # [DuckExecute ?q, DuckClose]\<rparr>)"
        using assms v by (simp add: restore_load_def emit_def Let_def)
      then show ?thesis by blast
    qed
  qed
qed

text \<open>
  C6, at the failing input: a run with a transformation query on a path that does not
  exist, with an engine that reports that it finds no file. The run opens a DuckDB
  connection and executes the \<^verbatim>\<open>CREATE VIEW\<close> over \<^verbatim>\<open>read_parquet\<close> of the missing path;
  the error of the run is the engine's, not \<^verbatim>\<open>FileNotFoundError\<close>.
\<close>

theorem transform_query_skips_path_check:
  "restore_main
     (env_ex\<lparr>path_exists := (\<lambda>p. False),
             duck_execute := (\<lambda>h q. Inl ''IO Error: No files found that match the pattern'')\<rparr>)
     (restore_args_ex\<lparr>r_parquet_path := Some ''/missing'',
                      r_transform_query := Some ''SELECT id FROM parquet_view''\<rparr>)
     world_ex =
   (Inl (EngineError ''IO Error: No files found that match the pattern''),
    world_ex\<lparr>trace :=
      [DuckConnect,
       DuckExecute (''CREATE VIEW parquet_view AS SELECT * FROM read_parquet('' @ sq @ ''/missing'' @ sq @ '')''),
       LogError (EngineError ''IO Error: No files found that match the pattern'')]\<rparr>)"
  by (simp add: restore_main_def restore_parse_args_def restore_try_def restore_load_def
      restore_args_ex_def env_ex_def world_ex_def truthy_def emit_def Let_def)

section \<open>Releasing the engines\<close>

text \<open>
  The extraction stops the Spark session it has started, whatever happens after.
\<close>

lemma extract_try_stops_session:
  assumes "session_error env (x_app_name args) = None"
  shows "\<exists>r evs. extract_try env args p tr = (r, evs @ [SparkStop])"
  using assms by (simp add: extract_try_def Let_def split: prod.splits sum.splits)

text \<open>The direct load closes its DuckDB connection, whatever the engine answers.\<close>

lemma direct_load_closes:
  assumes "path_exists env p"
  shows "\<exists>r. load_parquet_to_pandas env p w =
           (r, w\<lparr>trace := trace w @
                  [DuckConnect,
                   DuckExecute (''SELECT * FROM read_parquet('' @ sq @ p @ sq @ '')''),
                   DuckClose]\<rparr>)"
  using assms by (simp add: load_parquet_to_pandas_def emit_def Let_def split: sum.splits)

text \<open>
  C8, at the failing input: a restoration whose transformation query the engine rejects
  (the archive exists and the view is created). The run ends with the engine's error and
  its DuckDB connection, opened at the start, is never closed.
\<close>

theorem transform_failure_leaves_duckdb_open:
  "restore_main
     (env_ex\<lparr>duck_execute := (\<lambda>h q. if h = [] then Inr orders_df
                                     else Inl ''Catalog Error: Table with name archive does not exist'')\<rparr>)
     (restore_args_ex\<lparr>r_transform_query := Some ''SELECT id FROM archive''\<rparr>)
     world_ex =
   (Inl (EngineError ''Catalog Error: Table with name archive does not exist''),
    world_ex\<lparr>trace :=
      [DuckConnect,
       DuckExecute (''CREATE VIEW parquet_view AS SELECT * FROM read_parquet('' @ sq @ ''/data/orders'' @ sq @ '')''),
       DuckExecute ''SELECT id FROM archive'',
       LogError (EngineError ''Catalog Error: Table with name archive does not exist'')]\<rparr>)"
  by (simp add: restore_main_def restore_parse_args_def restore_try_def restore_load_def
      restore_args_ex_def env_ex_def world_ex_def truthy_def emit_def Let_def)

section \<open>Table or query\<close>

text \<open>
  C1 as stated fails: a command line with both a table and a query, and everything else
  in order, is accepted; the session is started, the query is read, the archive is
  written.
\<close>

theorem extractor_accepts_table_and_query:
  "extract_main spark_ex (args_ex\<lparr>x_query := Some ''SELECT 1''\<rparr>) [] =
     (Inr (),
      [SparkGetOrCreate ''SQL-to-Parquet'',
       SparkReadJdbc ''jdbc:sqlserver://db1;databaseName=shop;trustServerCertificate=true''
         (Some ''(SELECT 1) AS custom_query''),
       SparkCount,
       SparkWriteParquet ''snappy'' None ''/out'',
       SparkStop])"
  by (simp add: extract_main_def extract_parse_args_def truthy_def extract_try_def
      extract_from_sql_server_def save_as_parquet_def spark_ex_def args_ex_def py_str_def
      lower_def lower_char_def valid_methods_def partition_arg_def Let_def)

text \<open>
  C1, amended. A command line with neither a table nor a query ends in
  \<^verbatim>\<open>parser.error\<close> with nothing done: no session, no connection. A command line with
  both, whose other arguments are in order, is not rejected: the run goes on to start
  the Spark session and does not end in \<^verbatim>\<open>parser.error\<close>.
\<close>

theorem extractor_selector_validation:
  "(\<not> truthy (x_table args) \<and> \<not> truthy (x_query args) \<longrightarrow>
      (\<exists>m. extract_main env args tr = (Inl (SystemExit2 m), tr)))
   \<and> (truthy (x_table args) \<and> truthy (x_query args)
        \<and> extract_parse_args args = Inr output_path
        \<and> truthy (x_server args) \<and> truthy (x_database args)
        \<and> truthy (x_username args) \<and> truthy (x_password args) \<longrightarrow>
      (\<exists>r tr'. extract_main env args tr = (r, tr @ SparkGetOrCreate (x_app_name args) # tr')
         \<and> (\<forall>m. r \<noteq> Inl (SystemExit2 m))))"
proof (intro conjI impI)
  assume "\<not> truthy (x_table args) \<and> \<not> truthy (x_query args)"
  then show "\<exists>m. extract_main env args tr = (Inl (SystemExit2 m), tr)"
    by (cases "extract_parse_args args")
       (auto simp: extract_main_def extract_parse_args_def split: if_splits option.splits)
next
  assume a: "truthy (x_table args) \<and> truthy (x_query args)
        \<and> extract_parse_args args = Inr output_path
        \<and> truthy (x_server args) \<and> truthy (x_database args)
        \<and> truthy (x_username args) \<and> truthy (x_password args)"
  then have m: "extract_main env args tr = extract_try env args output_path tr"
    by (simp add: extract_main_def)
  show "\<exists>r tr'. extract_main env args tr = (r, tr @ SparkGetOrCreate (x_app_name args) # tr')
         \<and> (\<forall>m. r \<noteq> Inl (SystemExit2 m))"
    unfolding m
    by (auto simp: extract_try_def extract_from_sql_server_def save_as_parquet_def Let_def
        split: option.splits sum.splits prod.splits)
qed

text \<open>
  The sample command line without its table is rejected with nothing done; with a query
  added to its table it starts the session.
\<close>

theorem extractor_selector_validation_witness:
  "(\<exists>m. extract_main spark_ex (args_ex\<lparr>x_table := None\<rparr>) [] = (Inl (SystemExit2 m), []))
   \<and> (\<exists>r tr'. extract_main spark_ex (args_ex\<lparr>x_query := Some ''SELECT 1''\<rparr>) [] =
                 (r, SparkGetOrCreate ''SQL-to-Parquet'' # tr')
         \<and> (\<forall>m. r \<noteq> Inl (SystemExit2 m)))"
  using extractor_selector_validation[where args = "args_ex\<lparr>x_table := None\<rparr>"
      and env = spark_ex and tr = "[]" and output_path = "''/out''"]
    extractor_selector_validation[where args = "args_ex\<lparr>x_query := Some ''SELECT 1''\<rparr>"
      and env = spark_ex and tr = "[]" and output_path = "''/out''"]
  by (simp add: args_ex_def truthy_def extract_parse_args_def)

section \<open>The query comes first\<close>

text \<open>
  C9. When \<^verbatim>\<open>extract_from_sql_server\<close> is given a query (not empty), the table argument
  plays no part in what it does: the one read is the JDBC read of the query wrapped as
  \<^verbatim>\<open>(query) AS custom_query\<close>, the frame returned is the frame of that read, an error is
  the error of that read or of counting its rows, and the whole outcome is that of the
  same call without a table.
\<close>

theorem query_takes_precedence:
  assumes "query = Some q" "q \<noteq> []"
  shows "extract_from_sql_server env server database table username password query tr =
           (case read_jdbc env
                   (''jdbc:sqlserver://'' @ py_str server @ '';databaseName='' @ py_str database
                      @ '';trustServerCertificate=true'')
                   (Some (''('' @ q @ '') AS custom_query'')) username password of
              Inl m \<Rightarrow>
                (Inl (EngineError m),
                 tr @ [SparkReadJdbc (''jdbc:sqlserver://'' @ py_str server @ '';databaseName=''
                                        @ py_str database @ '';trustServerCertificate=true'')
                         (Some (''('' @ q @ '') AS custom_query''))])
            | Inr df \<Rightarrow>
                (case count_rows env df of Inl m \<Rightarrow> Inl (EngineError m) | Inr n \<Rightarrow> Inr df,
                 tr @ [SparkReadJdbc (''jdbc:sqlserver://'' @ py_str server @ '';databaseName=''
                                        @ py_str database @ '';trustServerCertificate=true'')
                         (Some (''('' @ q @ '') AS custom_query'')),
                       SparkCount]))
         \<and> extract_from_sql_server env server database table username password query tr =
           extract_from_sql_server env server database None username password query tr
         \<and> (\<exists>r tr'. extract_from_sql_server env server database table username password query tr =
               (r, tr @ SparkReadJdbc (''jdbc:sqlserver://'' @ py_str server @ '';databaseName=''
                                         @ py_str database @ '';trustServerCertificate=true'')
                          (Some (''('' @ q @ '') AS custom_query'')) # tr'))"
  using assms
  by (auto simp: extract_from_sql_server_def truthy_def py_str_def Let_def split: sum.splits)

text \<open>
  A table \<^verbatim>\<open>orders\<close> and a query \<^verbatim>\<open>SELECT 1\<close>, with an engine that answers the query with
  frame 1 and a read of the table with frame 0: the frame returned is frame 1.
\<close>

theorem query_takes_precedence_witness:
  "extract_from_sql_server
     (spark_ex\<lparr>read_jdbc := (\<lambda>url table user password.
                   if table = Some ''(SELECT 1) AS custom_query'' then Inr 1 else Inr 0)\<rparr>)
     (Some ''db1'') (Some ''shop'') (Some ''orders'') (Some ''sa'') (Some ''pw'')
     (Some ''SELECT 1'') [] =
   (Inr 1,
    [SparkReadJdbc ''jdbc:sqlserver://db1;databaseName=shop;trustServerCertificate=true''
       (Some ''(SELECT 1) AS custom_query''),
     SparkCount])"
proof -
  have ne: "''SELECT 1'' \<noteq> []" by simp
  note inst = query_takes_precedence[OF refl ne,
      where env = "spark_ex\<lparr>read_jdbc := (\<lambda>url table user password.
                   if table = Some ''(SELECT 1) AS custom_query'' then Inr 1 else Inr 0)\<rparr>"
      and server = "Some ''db1''" and database = "Some ''shop''" and table = "Some ''orders''"
      and username = "Some ''sa''" and password = "Some ''pw''" and tr = "[]"]
  show ?thesis
    using inst[THEN conjunct1] by (simp add: py_str_def spark_ex_def)
qed

section \<open>Compression codecs\<close>



text \<open>
  On the command line the argument parser admits the five names only, in their exact
  spelling, so the fallback is reached by other callers of \<^verbatim>\<open>save_as_parquet\<close>, not
  through \<^verbatim>\<open>main\<close>.
\<close>

lemma parser_admits_five_names:
  "extract_main spark_ex (args_ex\<lparr>x_compression := ''brotli''\<rparr>) [] =
     (Inl (SystemExit2 ''argument --compression: invalid choice''), [])"
  by (simp add: extract_main_def extract_parse_args_def args_ex_def)

end
